theory Spec2Isabelle
  imports Complex_Main "HOL-Library.Sublist" "HOL-Library.Multiset" "HOL-Library.Product_Lexorder"
begin

section \<open>Data model (emoji-data.models.ts)\<close>

text \<open>
  The interfaces of \<^verbatim>\<open>emoji-data.models.ts\<close> become records with the source's field
  names. Several interfaces share field names, so a selector is always written with its
  record's name (\<open>IEmoji.unified e\<close>).

  Short names, unified codes, image names and categories are ASCII text and are modelled
  as \<open>string\<close>. The field \<open>char\<close> holds the emoji itself; it is modelled as the list of
  its Unicode code points, which is how the matcher of \<^verbatim>\<open>initUnified\<close> (flag \<^verbatim>\<open>u\<close>)
  reads it. A TypeScript \<^verbatim>\<open>number\<close> is modelled as a real number: products and quotients
  are exact, the rounding of IEEE doubles is not part of the model. An optional field
  (\<^verbatim>\<open>?\<close>) and a value that may be \<^verbatim>\<open>null\<close> or \<^verbatim>\<open>undefined\<close> is an \<open>option\<close>. The object
  \<^verbatim>\<open>skin_variations\<close> is the finite map of its own keys.
\<close>

type_synonym ustring = "nat list"

record SkinVariationData =
  unified :: string
  non_qualified :: "string option"
  image :: string
  sheet_x :: real
  sheet_y :: real
  added_in :: string
  has_img_apple :: bool
  has_img_google :: bool
  has_img_twitter :: bool
  has_img_facebook :: bool
  obsoleted_by :: "string option"
  obsoletes :: "string option"

record IEmoji =
  name :: string
  unified :: string
  image :: string
  sheet_x :: real
  sheet_y :: real
  short_name :: string
  short_names :: "string list"
  category :: string
  subcategory :: string
  char :: ustring
  skin_variations :: "(string \<rightharpoonup> SkinVariationData) option"
  obsoleted_by :: "string option"
  obsoletes :: "string option"

record EmojiImage =
  x :: real
  y :: real
  sheetSizeX :: real
  sheetSizeY :: real
  image :: string

record EmoijSkinImageData =
  sheet_x :: real
  sheet_y :: real
  unified :: string
  short_name :: string
  image :: string

section \<open>Image descriptors (index.ts, findImage)\<close>

definition sheetColumns :: real where
  "sheetColumns = 61"

definition sheetRows :: real where
  "sheetRows = 61"

text \<open>
  JavaScript's \<^verbatim>\<open>a || b\<close> on two lookups in an object whose values are objects: the
  first one when it is present (an object is truthy), the second one otherwise.
\<close>

definition or_else :: "'a option \<Rightarrow> 'a option \<Rightarrow> 'a option" where
  "or_else a b = (case a of Some v \<Rightarrow> Some v | None \<Rightarrow> b)"

definition findImage :: "IEmoji \<Rightarrow> IEmoji option \<Rightarrow> EmojiImage" where
  "findImage actual variation =
     (let sheetSizeX = 100 * sheetColumns;
          sheetSizeY = 100 * sheetRows;
          multiplyX = 100 / (sheetColumns - 1);
          multiplyY = 100 / (sheetRows - 1)
      in case (IEmoji.skin_variations actual, variation) of
           (Some variations, Some v) \<Rightarrow>
             (let foundEmoji =
                    or_else (variations (IEmoji.unified v))
                      (variations (IEmoji.unified v @ ''-'' @ IEmoji.unified v))
              in \<lparr> EmojiImage.x =
                     (case foundEmoji of Some f \<Rightarrow> SkinVariationData.sheet_x f * multiplyX
                      | None \<Rightarrow> 0),
                   y =
                     (case foundEmoji of Some f \<Rightarrow> SkinVariationData.sheet_y f * multiplyY
                      | None \<Rightarrow> 0),
                   sheetSizeX = sheetSizeX,
                   sheetSizeY = sheetSizeY,
                   image =
                     (case foundEmoji of Some f \<Rightarrow> SkinVariationData.image f
                      | None \<Rightarrow> []) \<rparr>)
         | _ \<Rightarrow>
             \<lparr> EmojiImage.x = IEmoji.sheet_x actual * multiplyX,
               y = IEmoji.sheet_y actual * multiplyY,
               sheetSizeX = sheetSizeX,
               sheetSizeY = sheetSizeY,
               image = IEmoji.image actual \<rparr>)"

section \<open>Strings (built-ins of JavaScript used by index.ts)\<close>

text \<open>
  \<^verbatim>\<open>toLowerCase\<close> on ASCII text maps \<^verbatim>\<open>A\<close>..\<^verbatim>\<open>Z\<close> to \<^verbatim>\<open>a\<close>..\<^verbatim>\<open>z\<close> and leaves every other
  character as it is.
\<close>

definition toLowerCase :: "string \<Rightarrow> string" where
  "toLowerCase s =
     map (\<lambda>c. if (65::nat) \<le> of_char c \<and> of_char c \<le> (90::nat)
              then char_of (of_char c + (32::nat)) else c) s"

text \<open>
  \<^verbatim>\<open>s.indexOf(t)\<close>: the least position at which \<open>t\<close> starts in \<open>s\<close>, or \<open>-1\<close>. The
  empty string is found at position 0.
\<close>

fun indexOf :: "'a list \<Rightarrow> 'a list \<Rightarrow> int" where
  "indexOf [] t = (if t = [] then 0 else - 1)"
| "indexOf (c # cs) t =
     (if prefix t (c # cs) then 0
      else (let i = indexOf cs t in if i = - 1 then - 1 else i + 1))"

text \<open>
  \<^verbatim>\<open>xs.slice(start, end)\<close> for integer arguments: a negative argument counts from the
  end of the array, and both are clamped to the array.
\<close>

definition slice :: "int \<Rightarrow> int \<Rightarrow> 'a list \<Rightarrow> 'a list" where
  "slice start end xs =
     (let len = int (length xs);
          k = (if start < 0 then max (len + start) 0 else min start len);
          final = (if end < 0 then max (len + end) 0 else min end len)
      in take (nat (final - k)) (drop (nat k) xs))"

text \<open>
  \<^verbatim>\<open>emojiStr.match(/skin-tone-(\d+)/)\<close>: the leftmost position at which \<^verbatim>\<open>skin-tone-\<close>
  is followed by a digit; the capture is the longest run of digits there. \<open>None\<close> is
  the \<^verbatim>\<open>null\<close> of a failed match.
\<close>

definition isDigit :: "char \<Rightarrow> bool" where
  "isDigit c = ((48::nat) \<le> of_char c \<and> of_char c \<le> (57::nat))"

fun match_skin_tone :: "string \<Rightarrow> string option" where
  "match_skin_tone [] = None"
| "match_skin_tone (c # cs) =
     (if prefix ''skin-tone-'' (c # cs) \<and> takeWhile isDigit (drop 10 (c # cs)) \<noteq> []
      then Some (takeWhile isDigit (drop 10 (c # cs)))
      else match_skin_tone cs)"

text \<open>
  The template literal \<^verbatim>\<open>`skin-tone-${skinTone}`\<close>: \<^verbatim>\<open>null\<close> is rendered as the text
  \<^verbatim>\<open>null\<close>.
\<close>

definition skin_tone_key :: "string option \<Rightarrow> string" where
  "skin_tone_key skinTone =
     ''skin-tone-'' @ (case skinTone of Some n \<Rightarrow> n | None \<Rightarrow> ''null'')"

text \<open>
  \<^verbatim>\<open>emojiStrWithColon.replace(/^(:+)|(:+)$/g, '')\<close>. The first alternative matches at
  position 0 only and takes the whole run of colons there. The second alternative matches
  at a position exactly when everything from there to the end is colons. The scan goes
  from left to right and copies what is not matched.
\<close>

definition isColon :: "char \<Rightarrow> bool" where
  "isColon c = (c = CHR '':'')"

fun remove_trailing_colons :: "string \<Rightarrow> string" where
  "remove_trailing_colons [] = []"
| "remove_trailing_colons (c # cs) =
     (if list_all isColon (c # cs) then [] else c # remove_trailing_colons cs)"

definition remove_colons :: "string \<Rightarrow> string" where
  "remove_colons s = remove_trailing_colons (dropWhile isColon s)"

section \<open>The lookup maps (index.ts, initEmojiMap)\<close>

text \<open>
  \<^verbatim>\<open>initEmojiMap\<close> fills the maps record by record, name by name; \<^verbatim>\<open>Map.set\<close> on a key
  that is present overwrites it.
\<close>

definition emojiValMap :: "IEmoji list \<Rightarrow> string \<rightharpoonup> IEmoji" where
  "emojiValMap emojis =
     foldl (\<lambda>m eachEmoji. foldl (\<lambda>m' name. m'(name \<mapsto> eachEmoji)) m (IEmoji.short_names eachEmoji))
       Map.empty emojis"

definition emojiUnifiedValMap :: "IEmoji list \<Rightarrow> ustring \<rightharpoonup> IEmoji" where
  "emojiUnifiedValMap emojis =
     foldl (\<lambda>m eachEmoji. m(IEmoji.char eachEmoji \<mapsto> eachEmoji)) Map.empty emojis"

section \<open>Lookups (index.ts)\<close>

definition getImageData :: "IEmoji list \<Rightarrow> string \<Rightarrow> EmojiImage option" where
  "getImageData emojis emojiStr0 =
     (let emojiStr = toLowerCase emojiStr0
      in if indexOf emojiStr ''::skin-tone-'' = - 1
         then (case emojiValMap emojis emojiStr of
                 Some emojiVal \<Rightarrow>
                   if IEmoji.category emojiVal \<noteq> ''Skin Tones''
                   then Some (findImage emojiVal None) else None
               | None \<Rightarrow> None)
         else (let skinTone = match_skin_tone emojiStr;
                   skinVal = emojiValMap emojis (skin_tone_key skinTone);
                   emojiIdx = take (length emojiStr - 13) emojiStr;
                   emojiVal = emojiValMap emojis emojiIdx
               in case emojiVal of
                    Some e \<Rightarrow> Some (findImage e skinVal)
                  | None \<Rightarrow> None))"

definition getImageDataWithColon :: "IEmoji list \<Rightarrow> string \<Rightarrow> EmojiImage option" where
  "getImageDataWithColon emojis emojiStrWithColon =
     (let emojiStr = remove_colons emojiStrWithColon in getImageData emojis emojiStr)"

definition hasSkinTone :: "string \<Rightarrow> bool" where
  "hasSkinTone skinTone = (indexOf skinTone ''skin-tone-'' > - 1)"

definition getSkinInfo :: "IEmoji list \<Rightarrow> IEmoji \<Rightarrow> string option \<Rightarrow> EmoijSkinImageData" where
  "getSkinInfo emojis emoji skinTone =
     (case skinTone of
        Some tone \<Rightarrow>
          if hasSkinTone tone
          then (let skinEmoji = emojiValMap emojis tone;
                    pos = findImage emoji skinEmoji
                in \<lparr> EmoijSkinImageData.sheet_x = EmojiImage.x pos,
                     sheet_y = EmojiImage.y pos,
                     unified = IEmoji.unified emoji,
                     short_name = tone,
                     image = EmojiImage.image pos \<rparr>)
          else \<lparr> EmoijSkinImageData.sheet_x = IEmoji.sheet_x emoji,
                 sheet_y = IEmoji.sheet_y emoji,
                 unified = IEmoji.unified emoji,
                 short_name = IEmoji.short_name emoji,
                 image = IEmoji.image emoji \<rparr>
      | None \<Rightarrow>
          \<lparr> EmoijSkinImageData.sheet_x = IEmoji.sheet_x emoji,
            sheet_y = IEmoji.sheet_y emoji,
            unified = IEmoji.unified emoji,
            short_name = IEmoji.short_name emoji,
            image = IEmoji.image emoji \<rparr>)"

section \<open>Search (index.ts, searchEmoji)\<close>

text \<open>
  The loop collects the pairs \<^verbatim>\<open>{ index, emoji }\<close> in dataset order. \<^verbatim>\<open>Array.prototype.sort\<close>
  is a stable sort; with a comparator that subtracts two keys it is the stable sort by that
  key, which is what \<open>sort_key\<close> computes. The limit is an integer.
\<close>

definition search_matches :: "IEmoji list \<Rightarrow> string \<Rightarrow> (int \<times> IEmoji) list" where
  "search_matches emojis emojiStr =
     concat (map (\<lambda>emoji.
       (let index = indexOf (IEmoji.short_name emoji) emojiStr
        in if index > - 1 \<and> \<not> hasSkinTone (IEmoji.short_name emoji)
           then [(index, emoji)] else [])) emojis)"

definition searchEmoji :: "IEmoji list \<Rightarrow> string \<Rightarrow> int \<Rightarrow> IEmoji list" where
  "searchEmoji emojis emojiStr limit =
     slice 0 limit
       (map snd
         (sort_key fst
           (sort_key (\<lambda>a. length (IEmoji.short_name (snd a)))
             (search_matches emojis emojiStr))))"

section \<open>Reverse substitution (index.ts, initUnified and replaceEmojiToStr)\<close>

text \<open>
  A text is the list of its code points. \<open>codes\<close> embeds an ASCII string, \<open>utf16_length\<close>
  is the \<^verbatim>\<open>length\<close> of a JavaScript string (code points beyond \<^verbatim>\<open>U+FFFF\<close> take two
  units).
\<close>

definition codes :: "string \<Rightarrow> ustring" where
  "codes s = map of_char s"

definition utf16_length :: "ustring \<Rightarrow> nat" where
  "utf16_length s = sum_list (map (\<lambda>c. if c > 0xFFFF then 2 else 1) s)"

text \<open>\<^verbatim>\<open>e.char.replace('*', '\\*')\<close> puts a backslash before the first \<^verbatim>\<open>*\<close> only.\<close>

fun escape_star :: "ustring \<Rightarrow> ustring" where
  "escape_star [] = []"
| "escape_star (c # cs) = (if c = 42 then 92 # 42 # cs else c # escape_star cs)"

text \<open>
  \<^verbatim>\<open>initUnified\<close> sorts the escaped texts by descending length and joins them into the
  alternation of the regular expression. The model keeps the sorted list of alternatives.
\<close>

definition initUnified :: "IEmoji list \<Rightarrow> ustring list" where
  "initUnified emojis =
     sort_key (\<lambda>a. - int (utf16_length a)) (map (\<lambda>e. escape_star (IEmoji.char e)) emojis)"

text \<open>
  What an alternative matches: its text, with \<^verbatim>\<open>\*\<close> standing for the character \<^verbatim>\<open>*\<close>.
  This is the reading of the regular expression for alternatives that hold no syntax
  character of regular expressions other than the escaped star (\<open>literal_char\<close> below).
\<close>

fun pattern_text :: "ustring \<Rightarrow> ustring" where
  "pattern_text (a # b # cs) =
     (if a = 92 \<and> b = 42 then 42 # pattern_text cs else a # pattern_text (b # cs))"
| "pattern_text cs = cs"



text \<open>
  One attempt of the matcher at the start of \<open>t\<close>. The alternatives are tried in order and
  the first one that is a prefix of \<open>t\<close> is group 1; the class \<^verbatim>\<open>[\u{DFFB}-\u{DFFF}]\<close>
  then takes the next code point when it lies in that range (group 2, optional and
  greedy). The result is the whole match and group 1.
\<close>

fun match_alternatives :: "ustring list \<Rightarrow> ustring \<Rightarrow> ustring option" where
  "match_alternatives [] t = None"
| "match_alternatives (p # ps) t =
     (if prefix (pattern_text p) t then Some (pattern_text p) else match_alternatives ps t)"

definition in_modifier_class :: "nat \<Rightarrow> bool" where
  "in_modifier_class c = (0xDFFB \<le> c \<and> c \<le> 0xDFFF)"

definition match_at :: "ustring list \<Rightarrow> ustring \<Rightarrow> (ustring \<times> ustring) option" where
  "match_at alts t =
     (case match_alternatives alts t of
        None \<Rightarrow> None
      | Some p1 \<Rightarrow>
          (case drop (length p1) t of
             c # _ \<Rightarrow> if in_modifier_class c then Some (p1 @ [c], p1) else Some (p1, p1)
           | [] \<Rightarrow> Some (p1, p1)))"

definition convertUniToStr :: "IEmoji list \<Rightarrow> ustring \<Rightarrow> ustring \<Rightarrow> ustring" where
  "convertUniToStr emojis emojiUni withoutSkinToneUni =
     (case emojiUnifiedValMap emojis withoutSkinToneUni of
        Some emoji \<Rightarrow> codes '':'' @ codes (IEmoji.short_name emoji) @ codes '':''
      | None \<Rightarrow> emojiUni)"

text \<open>
  \<^verbatim>\<open>text.replace(regex, fn)\<close> with the flag \<^verbatim>\<open>g\<close>: the leftmost match is replaced by the
  callback's result and the scan goes on behind it; a code point at which nothing matches
  is copied. After an empty match the scan moves on by one code point.
\<close>

function replace_all :: "IEmoji list \<Rightarrow> ustring list \<Rightarrow> ustring \<Rightarrow> ustring" where
  "replace_all emojis alts t =
     (case match_at alts t of
        None \<Rightarrow> (case t of [] \<Rightarrow> [] | c # cs \<Rightarrow> c # replace_all emojis alts cs)
      | Some (m, p1) \<Rightarrow>
          if m = []
          then convertUniToStr emojis m p1 @
                 (case t of [] \<Rightarrow> [] | c # cs \<Rightarrow> c # replace_all emojis alts cs)
          else convertUniToStr emojis m p1 @ replace_all emojis alts (drop (length m) t))"
  by pat_completeness auto
termination
proof -
  have pre: "match_alternatives alts t = Some p \<Longrightarrow> prefix p t" for alts t p
    by (induction alts) (auto split: if_splits)
  have nonempty: "match_at alts t = Some (m, p1) \<Longrightarrow> m \<noteq> [] \<Longrightarrow> t \<noteq> []" for alts t m p1
    using pre [of alts t]
    by (auto simp: match_at_def split: option.splits list.splits if_splits)
  show ?thesis
    by (relation "measure (\<lambda>(emojis, alts, t). length t)") (auto dest: nonempty)
qed

declare replace_all.simps [simp del]

definition replaceEmojiToStr :: "IEmoji list \<Rightarrow> ustring \<Rightarrow> ustring" where
  "replaceEmojiToStr emojis text = replace_all emojis (initUnified emojis) text"

section \<open>The specification's wording\<close>

text \<open>
  The definitions of this section follow the words of the specification, not the code;
  the theorems compare them with the functions above.

  ``Strips all leading and trailing colon characters'':
\<close>

definition strip_colons :: "string \<Rightarrow> string" where
  "strip_colons s = rev (dropWhile isColon (rev (dropWhile isColon s)))"


text \<open>
  Search: a record matches when its short name contains the query and does not contain
  \<^verbatim>\<open>skin-tone-\<close>; a match \<open>a\<close> may stand before a match \<open>b\<close> when the query occurs
  earlier in \<open>a\<close>'s short name, or at the same position and \<open>a\<close>'s short name is not
  longer. The result is the list of matches, stably sorted by the pair (position, length).
\<close>

definition search_key :: "string \<Rightarrow> IEmoji \<Rightarrow> int \<times> nat" where
  "search_key s e = (indexOf (IEmoji.short_name e) s, length (IEmoji.short_name e))"

definition search_match :: "string \<Rightarrow> IEmoji \<Rightarrow> bool" where
  "search_match s e =
     (sublist s (IEmoji.short_name e) \<and> \<not> sublist ''skin-tone-'' (IEmoji.short_name e))"

definition search_spec :: "IEmoji list \<Rightarrow> string \<Rightarrow> IEmoji list" where
  "search_spec emojis s = sort_key (search_key s) (filter (search_match s) emojis)"

definition search_before :: "string \<Rightarrow> IEmoji \<Rightarrow> IEmoji \<Rightarrow> bool" where
  "search_before s a b =
     (indexOf (IEmoji.short_name a) s < indexOf (IEmoji.short_name b) s
      \<or> (indexOf (IEmoji.short_name a) s = indexOf (IEmoji.short_name b) s
          \<and> length (IEmoji.short_name a) \<le> length (IEmoji.short_name b)))"

section \<open>A small dataset\<close>

text \<open>
  \<^verbatim>\<open>emoji.json\<close> is data, not code; every function above takes the dataset as its
  first argument. The records here have the shape of the dataset's records and are used
  to run the functions on concrete input. \<open>smile\<close> carries the unified code, the image
  and the sheet coordinates the repository's tests and README show for it,
  \<open>people_holding_hands\<close> is the record of the test of \<^verbatim>\<open>getSkinInfo\<close> with two of its
  variations, and the image of the variation of \<open>spock_hand\<close> is the one the tests expect.
  The other values are sample values.
\<close>

definition smile :: IEmoji where
  "smile = \<lparr> name = ''SMILING FACE WITH OPEN MOUTH AND SMILING EYES'',
             unified = ''1F604'', image = ''1f604.png'', sheet_x = 32, sheet_y = 50,
             short_name = ''smile'', short_names = [''smile''],
             category = ''Smileys & Emotion'', subcategory = ''face-smiling'',
             char = [0x1F604], skin_variations = None,
             obsoleted_by = None, obsoletes = None \<rparr>"

definition sample_variation :: "string \<Rightarrow> string \<Rightarrow> real \<Rightarrow> real \<Rightarrow> SkinVariationData" where
  "sample_variation u img sx sy =
     \<lparr> SkinVariationData.unified = u, non_qualified = None, image = img,
       sheet_x = sx, sheet_y = sy, added_in = ''12.0'',
       has_img_apple = True, has_img_google = True, has_img_twitter = True,
       has_img_facebook = True, obsoleted_by = None, obsoletes = None \<rparr>"

definition wave :: IEmoji where
  "wave = \<lparr> name = ''WAVING HAND SIGN'',
            unified = ''1F44B'', image = ''1f44b.png'', sheet_x = 13, sheet_y = 7,
            short_name = ''wave'', short_names = [''wave''],
            category = ''People & Body'', subcategory = ''hand-fingers-open'',
            char = [0x1F44B],
            skin_variations = Some [''1F3FB'' \<mapsto> sample_variation ''1F44B-1F3FB'' ''1f44b-1f3fb.png'' 13 8],
            obsoleted_by = None, obsoletes = None \<rparr>"

definition spock_hand :: IEmoji where
  "spock_hand = \<lparr> name = ''RAISED HAND WITH PART BETWEEN MIDDLE AND RING FINGERS'',
            unified = ''1F596'', image = ''1f596.png'', sheet_x = 31, sheet_y = 12,
            short_name = ''spock-hand'', short_names = [''spock-hand''],
            category = ''People & Body'', subcategory = ''hand-fingers-open'',
            char = [0x1F596],
            skin_variations = Some [''1F3FD'' \<mapsto> sample_variation ''1F596-1F3FD'' ''1f596-1f3fd.png'' 31 15],
            obsoleted_by = None, obsoletes = None \<rparr>"

definition people_holding_hands :: IEmoji where
  "people_holding_hands = \<lparr> name = ''PEOPLE HOLDING HANDS'',
            unified = ''1F9D1-200D-1F91D-200D-1F9D1'',
            image = ''1f9d1-200d-1f91d-200d-1f9d1.png'', sheet_x = 49, sheet_y = 28,
            short_name = ''people_holding_hands'', short_names = [''people_holding_hands''],
            category = ''People & Body'', subcategory = ''family'',
            char = [0x1F9D1, 0x200D, 0x1F91D, 0x200D, 0x1F9D1],
            skin_variations = Some
              [''1F3FB-1F3FB'' \<mapsto>
                 sample_variation ''1F9D1-1F3FB-200D-1F91D-200D-1F9D1-1F3FB''
                   ''1f9d1-1f3fb-200d-1f91d-200d-1f9d1-1f3fb.png'' 49 29,
               ''1F3FF-1F3FF'' \<mapsto>
                 sample_variation ''1F9D1-1F3FF-200D-1F91D-200D-1F9D1-1F3FF''
                   ''1f9d1-1f3ff-200d-1f91d-200d-1f9d1-1f3ff.png'' 49 53],
            obsoleted_by = None, obsoletes = None \<rparr>"

definition sample_modifier :: "string \<Rightarrow> string \<Rightarrow> string \<Rightarrow> nat \<Rightarrow> real \<Rightarrow> IEmoji" where
  "sample_modifier n u img c sy =
     \<lparr> name = ''EMOJI MODIFIER FITZPATRICK TYPE-'' @ n,
       unified = u, image = img, sheet_x = 0, sheet_y = sy,
       short_name = ''skin-tone-'' @ n, short_names = [''skin-tone-'' @ n],
       category = ''Skin Tones'', subcategory = ''skin-tone'',
       char = [c], skin_variations = None, obsoleted_by = None, obsoletes = None \<rparr>"

definition skin_tone_2 :: IEmoji where
  "skin_tone_2 = sample_modifier ''2'' ''1F3FB'' ''1f3fb.png'' 0x1F3FB 1"

definition skin_tone_4 :: IEmoji where
  "skin_tone_4 = sample_modifier ''4'' ''1F3FD'' ''1f3fd.png'' 0x1F3FD 3"

definition skin_tone_6 :: IEmoji where
  "skin_tone_6 = sample_modifier ''6'' ''1F3FF'' ''1f3ff.png'' 0x1F3FF 5"

definition sample_emojis :: "IEmoji list" where
  "sample_emojis =
     [people_holding_hands, spock_hand, wave, smile, skin_tone_2, skin_tone_4, skin_tone_6]"

text \<open>
  A dataset with a record whose short name itself contains \<^verbatim>\<open>skin-tone-2\<close>; no record of
  \<^verbatim>\<open>emoji.json\<close> is known to be named so.
\<close>

definition tone_named_hand :: IEmoji where
  "tone_named_hand = \<lparr> name = ''HAND NAMED AFTER A SKIN TONE'',
            unified = ''E001'', image = ''e001.png'', sheet_x = 1, sheet_y = 1,
            short_name = ''skin-tone-2-hand'', short_names = [''skin-tone-2-hand''],
            category = ''People & Body'', subcategory = ''hand-fingers-open'',
            char = [0xE001],
            skin_variations = Some
              [''1F3FB'' \<mapsto> sample_variation ''E001-1F3FB'' ''e001-1f3fb.png'' 1 2,
               ''1F3FD'' \<mapsto> sample_variation ''E001-1F3FD'' ''e001-1f3fd.png'' 1 3],
            obsoleted_by = None, obsoletes = None \<rparr>"


section \<open>Properties of findImage\<close>

lemma findImage_absent:
  "findImage base None =
     \<lparr> EmojiImage.x = IEmoji.sheet_x base * 100 / (sheetColumns - 1),
       y = IEmoji.sheet_y base * 100 / (sheetRows - 1),
       sheetSizeX = 100 * sheetColumns,
       sheetSizeY = 100 * sheetRows,
       image = IEmoji.image base \<rparr>"
  by (simp add: findImage_def Let_def split: option.splits)

text \<open>
  C3. With no modifier, or for a base record without \<open>skin_variations\<close>, the descriptor
  has the sheet sizes \<open>100 * sheetColumns\<close> and \<open>100 * sheetRows\<close> (both 6100, the counts
  being 61), the coordinates \<open>sheet_x * 100 / (sheetColumns - 1)\<close> and
  \<open>sheet_y * 100 / (sheetRows - 1)\<close>, and the base record's image.
\<close>

theorem findImage_base:
  assumes "variation = None \<or> IEmoji.skin_variations base = None"
  shows "findImage base variation =
           \<lparr> EmojiImage.x = IEmoji.sheet_x base * 100 / (sheetColumns - 1),
             y = IEmoji.sheet_y base * 100 / (sheetRows - 1),
             sheetSizeX = 100 * sheetColumns,
             sheetSizeY = 100 * sheetRows,
             image = IEmoji.image base \<rparr>
         \<and> sheetColumns = 61 \<and> sheetRows = 61
         \<and> EmojiImage.sheetSizeX (findImage base variation) = 6100
         \<and> EmojiImage.sheetSizeY (findImage base variation) = 6100"
  using assms
  by (auto simp: findImage_def Let_def sheetColumns_def sheetRows_def split: option.splits)

theorem findImage_base_witness:
  "((None :: IEmoji option) = None \<or> IEmoji.skin_variations smile = None)
   \<and> findImage smile None =
     \<lparr> EmojiImage.x = 160 / 3, y = 250 / 3, sheetSizeX = 6100, sheetSizeY = 6100,
       image = ''1f604.png'' \<rparr>"
  using findImage_base [of None smile]
  by (simp add: smile_def sheetColumns_def sheetRows_def)


text \<open>
  C4. For a base record with \<open>skin_variations\<close> and a modifier record, \<open>findImage\<close>
  looks the variation up under the modifier's unified code, then under that code joined
  with itself by a hyphen; when both are absent the descriptor has the coordinates
  \<open>(0, 0)\<close>, the full sheet sizes and the empty image. \<open>findImage\<close> is a total function
  into descriptors: there is no ``not found'' and no exception.
\<close>

theorem findImage_variation:
  assumes "IEmoji.skin_variations base = Some variations"
  shows "findImage base (Some modifier) =
     (case variations (IEmoji.unified modifier) of
        Some f \<Rightarrow>
          \<lparr> EmojiImage.x = SkinVariationData.sheet_x f * (100 / (sheetColumns - 1)),
            y = SkinVariationData.sheet_y f * (100 / (sheetRows - 1)),
            sheetSizeX = 6100, sheetSizeY = 6100, image = SkinVariationData.image f \<rparr>
      | None \<Rightarrow>
          (case variations (IEmoji.unified modifier @ ''-'' @ IEmoji.unified modifier) of
             Some f \<Rightarrow>
               \<lparr> EmojiImage.x = SkinVariationData.sheet_x f * (100 / (sheetColumns - 1)),
                 y = SkinVariationData.sheet_y f * (100 / (sheetRows - 1)),
                 sheetSizeX = 6100, sheetSizeY = 6100, image = SkinVariationData.image f \<rparr>
           | None \<Rightarrow>
               \<lparr> EmojiImage.x = 0, y = 0, sheetSizeX = 6100, sheetSizeY = 6100, image = [] \<rparr>))"
  using assms
  by (simp add: findImage_def or_else_def Let_def sheetColumns_def sheetRows_def
           split: option.splits)

theorem findImage_variation_witness:
  "IEmoji.skin_variations people_holding_hands \<noteq> None
   \<and> findImage people_holding_hands (Some skin_tone_6) =
       \<lparr> EmojiImage.x = 245 / 3, y = 265 / 3, sheetSizeX = 6100, sheetSizeY = 6100,
         image = ''1f9d1-1f3ff-200d-1f91d-200d-1f9d1-1f3ff.png'' \<rparr>
   \<and> findImage spock_hand (Some skin_tone_6) =
       \<lparr> EmojiImage.x = 0, y = 0, sheetSizeX = 6100, sheetSizeY = 6100, image = [] \<rparr>"
  using findImage_variation [of people_holding_hands _ skin_tone_6]
        findImage_variation [of spock_hand _ skin_tone_6]
  by (simp add: people_holding_hands_def spock_hand_def skin_tone_6_def sample_modifier_def
        sample_variation_def sheetColumns_def sheetRows_def)

section \<open>Properties of the string functions\<close>

lemma indexOf_ge: "- 1 \<le> indexOf s t"
  by (induction s) (auto simp: Let_def)

lemma indexOf_sublist: "(indexOf s t > - 1) = sublist t s"
proof (induction s)
  case Nil
  then show ?case by auto
next
  case (Cons c cs)
  have "- 1 \<le> indexOf cs t" by (rule indexOf_ge)
  with Cons show ?case
    by (auto simp: Let_def sublist_Cons_right)
qed

lemma indexOf_none: "(indexOf s t = - 1) = (\<not> sublist t s)"
  using indexOf_sublist [of s t] indexOf_ge [of s t] by auto

text \<open>\<open>indexOf\<close> is the position of the first occurrence.\<close>

lemma indexOf_first:
  "0 \<le> indexOf s t \<Longrightarrow>
     prefix t (drop (nat (indexOf s t)) s) \<and> (\<forall>j < nat (indexOf s t). \<not> prefix t (drop j s))"
proof (induction s)
  case Nil
  then show ?case by (auto split: if_splits)
next
  case (Cons c cs)
  show ?case
  proof (cases "prefix t (c # cs)")
    case True
    then show ?thesis by simp
  next
    case False
    with Cons.prems have nz: "indexOf cs t \<noteq> - 1" and eq: "indexOf (c # cs) t = indexOf cs t + 1"
      by (auto simp: Let_def split: if_splits)
    from nz indexOf_ge [of cs t] have pos: "0 \<le> indexOf cs t" by linarith
    from Cons.IH [OF pos] have ih1: "prefix t (drop (nat (indexOf cs t)) cs)"
      and ih2: "\<forall>j < nat (indexOf cs t). \<not> prefix t (drop j cs)" by auto
    have n: "nat (indexOf (c # cs) t) = Suc (nat (indexOf cs t))" using eq pos by simp
    show ?thesis
    proof (intro conjI allI impI)
      show "prefix t (drop (nat (indexOf (c # cs) t)) (c # cs))" using ih1 n by simp
    next
      fix j assume "j < nat (indexOf (c # cs) t)"
      then show "\<not> prefix t (drop j (c # cs))"
        using False ih2 n by (cases j) auto
    qed
  qed
qed

lemma hasSkinTone_sublist: "hasSkinTone s = sublist ''skin-tone-'' s"
  by (simp add: hasSkinTone_def indexOf_sublist)

lemma toLowerCase_append: "toLowerCase (a @ b) = toLowerCase a @ toLowerCase b"
  by (simp add: toLowerCase_def)

lemma toLowerCase_sublist:
  assumes "sublist t s"
  shows "sublist (toLowerCase t) (toLowerCase s)"
proof -
  from assms obtain ps ss where "s = ps @ t @ ss" by (auto simp: sublist_def)
  then have "toLowerCase s = toLowerCase ps @ toLowerCase t @ toLowerCase ss"
    by (simp add: toLowerCase_append)
  then show ?thesis by simp
qed

lemma toLowerCase_marker: "toLowerCase ''::skin-tone-'' = ''::skin-tone-''"
  by (simp add: toLowerCase_def)

lemma length_toLowerCase: "length (toLowerCase s) = length s"
  by (simp add: toLowerCase_def)

lemma marker_lower: "sublist ''::skin-tone-'' q \<Longrightarrow> sublist ''::skin-tone-'' (toLowerCase q)"
  using toLowerCase_sublist [of "''::skin-tone-''" q] by (simp only: toLowerCase_marker)

text \<open>Both orientations, for evaluating \<open>toLowerCase\<close> on a literal.\<close>

lemma char_of_eq:
  "(char_of (n::nat) = c) = (take_bit 8 n = of_char c)"
  "(c = char_of (n::nat)) = (take_bit 8 n = of_char c)"
  using char_of_eq_iff [of n c] by auto

lemma remove_trailing_colons_all: "list_all isColon s \<Longrightarrow> remove_trailing_colons s = []"
  by (cases s) auto

lemma remove_trailing_colons_rev:
  "remove_trailing_colons s = rev (dropWhile isColon (rev s))"
proof (induction s)
  case Nil
  then show ?case by simp
next
  case (Cons c cs)
  show ?case
  proof (cases "list_all isColon cs")
    case True
    then show ?thesis
      by (auto simp: dropWhile_append list_all_iff remove_trailing_colons_all)
  next
    case False
    then show ?thesis using Cons
      by (auto simp: dropWhile_append list_all_iff)
  qed
qed

lemma remove_colons_strip: "remove_colons s = strip_colons s"
  by (simp add: remove_colons_def strip_colons_def remove_trailing_colons_rev)

section \<open>The sample dataset, evaluated\<close>

lemma sample_short_names:
  "IEmoji.short_names people_holding_hands = [''people_holding_hands'']"
  "IEmoji.short_names spock_hand = [''spock-hand'']"
  "IEmoji.short_names wave = [''wave'']"
  "IEmoji.short_names smile = [''smile'']"
  "IEmoji.short_names skin_tone_2 = [''skin-tone-2'']"
  "IEmoji.short_names skin_tone_4 = [''skin-tone-4'']"
  "IEmoji.short_names skin_tone_6 = [''skin-tone-6'']"
  "IEmoji.short_names tone_named_hand = [''skin-tone-2-hand'']"
  by (simp_all add: people_holding_hands_def spock_hand_def wave_def smile_def
        skin_tone_2_def skin_tone_4_def skin_tone_6_def sample_modifier_def tone_named_hand_def)

lemma sample_short_name:
  "IEmoji.short_name people_holding_hands = ''people_holding_hands''"
  "IEmoji.short_name spock_hand = ''spock-hand''"
  "IEmoji.short_name wave = ''wave''"
  "IEmoji.short_name smile = ''smile''"
  "IEmoji.short_name skin_tone_2 = ''skin-tone-2''"
  "IEmoji.short_name skin_tone_4 = ''skin-tone-4''"
  "IEmoji.short_name skin_tone_6 = ''skin-tone-6''"
  by (simp_all add: people_holding_hands_def spock_hand_def wave_def smile_def
        skin_tone_2_def skin_tone_4_def skin_tone_6_def sample_modifier_def)

lemma sample_category:
  "IEmoji.category smile = ''Smileys & Emotion''"
  "IEmoji.category skin_tone_4 = ''Skin Tones''"
  by (simp_all add: smile_def skin_tone_4_def sample_modifier_def)

lemma sample_char:
  "IEmoji.char people_holding_hands = [0x1F9D1, 0x200D, 0x1F91D, 0x200D, 0x1F9D1]"
  "IEmoji.char spock_hand = [0x1F596]"
  "IEmoji.char wave = [0x1F44B]"
  "IEmoji.char smile = [0x1F604]"
  "IEmoji.char skin_tone_2 = [0x1F3FB]"
  "IEmoji.char skin_tone_4 = [0x1F3FD]"
  "IEmoji.char skin_tone_6 = [0x1F3FF]"
  by (simp_all add: people_holding_hands_def spock_hand_def wave_def smile_def
        skin_tone_2_def skin_tone_4_def skin_tone_6_def sample_modifier_def)

lemma emojiValMap_sample:
  "emojiValMap sample_emojis =
     [''people_holding_hands'' \<mapsto> people_holding_hands, ''spock-hand'' \<mapsto> spock_hand,
      ''wave'' \<mapsto> wave, ''smile'' \<mapsto> smile, ''skin-tone-2'' \<mapsto> skin_tone_2,
      ''skin-tone-4'' \<mapsto> skin_tone_4, ''skin-tone-6'' \<mapsto> skin_tone_6]"
  by (simp add: emojiValMap_def sample_emojis_def sample_short_names)


lemma findImage_sample:
  "findImage smile None =
     \<lparr> EmojiImage.x = 160 / 3, y = 250 / 3, sheetSizeX = 6100, sheetSizeY = 6100,
       image = ''1f604.png'' \<rparr>"
  "findImage smile (Some skin_tone_4) =
     \<lparr> EmojiImage.x = 160 / 3, y = 250 / 3, sheetSizeX = 6100, sheetSizeY = 6100,
       image = ''1f604.png'' \<rparr>"
  "findImage wave None =
     \<lparr> EmojiImage.x = 65 / 3, y = 35 / 3, sheetSizeX = 6100, sheetSizeY = 6100,
       image = ''1f44b.png'' \<rparr>"
  "findImage spock_hand (Some skin_tone_4) =
     \<lparr> EmojiImage.x = 155 / 3, y = 25, sheetSizeX = 6100, sheetSizeY = 6100,
       image = ''1f596-1f3fd.png'' \<rparr>"
  "findImage people_holding_hands (Some skin_tone_6) =
     \<lparr> EmojiImage.x = 245 / 3, y = 265 / 3, sheetSizeX = 6100, sheetSizeY = 6100,
       image = ''1f9d1-1f3ff-200d-1f91d-200d-1f9d1-1f3ff.png'' \<rparr>"
  "findImage tone_named_hand (Some skin_tone_2) =
     \<lparr> EmojiImage.x = 5 / 3, y = 10 / 3, sheetSizeX = 6100, sheetSizeY = 6100,
       image = ''e001-1f3fb.png'' \<rparr>"
  "findImage tone_named_hand (Some skin_tone_4) =
     \<lparr> EmojiImage.x = 5 / 3, y = 5, sheetSizeX = 6100, sheetSizeY = 6100,
       image = ''e001-1f3fd.png'' \<rparr>"
  by (simp_all add: findImage_def or_else_def smile_def wave_def spock_hand_def
        people_holding_hands_def tone_named_hand_def skin_tone_2_def skin_tone_4_def
        skin_tone_6_def sample_modifier_def sample_variation_def sheetColumns_def sheetRows_def)

section \<open>Properties of getImageData and getImageDataWithColon\<close>

lemma getImageData_plain:
  "\<not> sublist ''::skin-tone-'' (toLowerCase q) \<Longrightarrow>
   getImageData emojis q =
     (case emojiValMap emojis (toLowerCase q) of
        Some e \<Rightarrow> if IEmoji.category e \<noteq> ''Skin Tones'' then Some (findImage e None) else None
      | None \<Rightarrow> None)"
  by (simp add: getImageData_def Let_def indexOf_none)

lemma getImageData_compound:
  "sublist ''::skin-tone-'' (toLowerCase q) \<Longrightarrow>
   getImageData emojis q =
     (case emojiValMap emojis (take (length q - 13) (toLowerCase q)) of
        Some e \<Rightarrow>
          Some (findImage e (emojiValMap emojis (skin_tone_key (match_skin_tone (toLowerCase q)))))
      | None \<Rightarrow> None)"
  by (simp add: getImageData_def Let_def indexOf_none length_toLowerCase)

lemma getImageData_smile:
  "getImageData sample_emojis ''smile'' =
     Some \<lparr> EmojiImage.x = 160 / 3, y = 250 / 3, sheetSizeX = 6100, sheetSizeY = 6100,
            image = ''1f604.png'' \<rparr>"
  by (simp add: getImageData_def toLowerCase_def char_of_eq emojiValMap_sample
       sample_category findImage_sample)

text \<open>
  C8. \<open>getImageDataWithColon\<close> is \<open>getImageData\<close> on the token without its leading and
  its trailing colons. So for a name \<open>n\<close> that neither starts nor ends with a colon,
  \<open>getImageDataWithColon (":" + n + ":")\<close> is \<open>getImageData n\<close>.
\<close>

theorem getImageDataWithColon_strip:
  "getImageDataWithColon emojis token = getImageData emojis (strip_colons token)
   \<and> ((n = [] \<or> (hd n \<noteq> CHR '':'' \<and> last n \<noteq> CHR '':'')) \<longrightarrow>
        getImageDataWithColon emojis ('':'' @ n @ '':'') = getImageData emojis n)"
proof (intro conjI impI)
  show "getImageDataWithColon emojis token = getImageData emojis (strip_colons token)"
    by (simp add: getImageDataWithColon_def remove_colons_strip)
next
  assume plain: "n = [] \<or> (hd n \<noteq> CHR '':'' \<and> last n \<noteq> CHR '':'')"
  have "strip_colons ('':'' @ n @ '':'') = n"
  proof (cases n rule: rev_cases)
    case Nil
    then show ?thesis by (simp add: strip_colons_def isColon_def)
  next
    case (snoc ys z)
    with plain have z: "z \<noteq> CHR '':''" and h: "hd (ys @ [z]) \<noteq> CHR '':''" by auto
    from h have "dropWhile isColon ((ys @ [z]) @ '':'') = (ys @ [z]) @ '':''"
      by (cases ys) (auto simp: isColon_def)
    then show ?thesis using z snoc
      by (simp add: strip_colons_def isColon_def)
  qed
  then show "getImageDataWithColon emojis ('':'' @ n @ '':'') = getImageData emojis n"
    by (simp add: getImageDataWithColon_def remove_colons_strip)
qed

theorem getImageDataWithColon_strip_witness:
  "(''smile'' = [] \<or> (hd ''smile'' \<noteq> CHR '':'' \<and> last ''smile'' \<noteq> CHR '':''))
   \<and> strip_colons ''::smile:'' = ''smile''
   \<and> getImageDataWithColon sample_emojis ''::smile:'' = getImageData sample_emojis ''smile''
   \<and> getImageDataWithColon sample_emojis '':smile:'' =
       Some \<lparr> EmojiImage.x = 160 / 3, y = 250 / 3, sheetSizeX = 6100, sheetSizeY = 6100,
              image = ''1f604.png'' \<rparr>"
  using getImageDataWithColon_strip [of sample_emojis "''::smile:''" "''smile''"]
  by (simp add: strip_colons_def isColon_def getImageData_smile)

section \<open>Properties of getSkinInfo\<close>

text \<open>
  C9. When \<open>skinToneName\<close> is given and contains \<^verbatim>\<open>skin-tone-\<close> (what \<open>hasSkinTone\<close>
  tests), \<open>getSkinInfo\<close> looks the modifier up under that name and returns the
  coordinates and the image of the descriptor \<open>findImage\<close> computes, the record's
  \<open>unified\<close>, and \<open>skinToneName\<close> as the short name. When \<open>skinToneName\<close> is absent or does
  not contain \<^verbatim>\<open>skin-tone-\<close>, it returns the record's own five fields.
\<close>

theorem getSkinInfo_cases:
  "(\<forall>tone. skinToneName = Some tone \<and> sublist ''skin-tone-'' tone \<longrightarrow>
      getSkinInfo emojis record skinToneName =
        (let pos = findImage record (emojiValMap emojis tone)
         in \<lparr> EmoijSkinImageData.sheet_x = EmojiImage.x pos,
              sheet_y = EmojiImage.y pos,
              unified = IEmoji.unified record,
              short_name = tone,
              image = EmojiImage.image pos \<rparr>))
   \<and> ((skinToneName = None \<or> (\<exists>tone. skinToneName = Some tone \<and> \<not> sublist ''skin-tone-'' tone)) \<longrightarrow>
      getSkinInfo emojis record skinToneName =
        \<lparr> EmoijSkinImageData.sheet_x = IEmoji.sheet_x record,
          sheet_y = IEmoji.sheet_y record,
          unified = IEmoji.unified record,
          short_name = IEmoji.short_name record,
          image = IEmoji.image record \<rparr>)"
  by (auto simp: getSkinInfo_def hasSkinTone_sublist Let_def split: option.splits)

theorem getSkinInfo_cases_witness:
  "sublist ''skin-tone-'' ''skin-tone-6''
   \<and> getSkinInfo sample_emojis people_holding_hands (Some ''skin-tone-6'') =
       \<lparr> EmoijSkinImageData.sheet_x = 245 / 3, sheet_y = 265 / 3,
         unified = ''1F9D1-200D-1F91D-200D-1F9D1'', short_name = ''skin-tone-6'',
         image = ''1f9d1-1f3ff-200d-1f91d-200d-1f9d1-1f3ff.png'' \<rparr>
   \<and> getSkinInfo sample_emojis smile None =
       \<lparr> EmoijSkinImageData.sheet_x = 32, sheet_y = 50, unified = ''1F604'',
         short_name = ''smile'', image = ''1f604.png'' \<rparr>"
proof -
  have u: "IEmoji.unified people_holding_hands = ''1F9D1-200D-1F91D-200D-1F9D1''"
    by (simp add: people_holding_hands_def)
  show ?thesis
    using getSkinInfo_cases [of "Some ''skin-tone-6''" sample_emojis people_holding_hands]
          getSkinInfo_cases [of None sample_emojis smile]
    by (simp add: emojiValMap_sample findImage_sample u smile_def)
qed

section \<open>Properties of the name index\<close>

lemma names_update:
  "foldl (\<lambda>m' name. m'(name \<mapsto> e)) m names k = (if k \<in> set names then Some e else m k)"
  by (induction names arbitrary: m) auto

lemma emojiValMap_fold_None:
  "(foldl (\<lambda>m eachEmoji. foldl (\<lambda>m' name. m'(name \<mapsto> eachEmoji)) m (IEmoji.short_names eachEmoji))
      m emojis k = None)
   = (m k = None \<and> (\<forall>e \<in> set emojis. k \<notin> set (IEmoji.short_names e)))"
  by (induction emojis arbitrary: m) (auto simp: names_update)

lemma emojiValMap_None:
  "(emojiValMap emojis k = None) = (\<forall>e \<in> set emojis. k \<notin> set (IEmoji.short_names e))"
  by (simp add: emojiValMap_def emojiValMap_fold_None)

section \<open>Plain and compound queries\<close>

text \<open>
  C6, as amended. The test for \<^verbatim>\<open>::skin-tone-\<close> is made on the lower-cased query. For a
  query whose lower-cased form does not contain \<^verbatim>\<open>::skin-tone-\<close>, \<open>getImageData\<close> returns
  a descriptor exactly when the lower-cased query is a name of the index whose record has
  a category other than \<^verbatim>\<open>Skin Tones\<close>, and the descriptor is that record's descriptor
  without modifier; otherwise it returns \<open>None\<close>. For a dataset in which \<^verbatim>\<open>:)\<close> is no short
  name, \<open>getImageData ":)"\<close> is \<open>None\<close>.
\<close>

theorem getImageData_plain_found:
  assumes "\<not> sublist ''::skin-tone-'' (toLowerCase q)"
  shows "((getImageData emojis q \<noteq> None) =
            (\<exists>e. emojiValMap emojis (toLowerCase q) = Some e \<and> IEmoji.category e \<noteq> ''Skin Tones''))
         \<and> (\<forall>e. emojiValMap emojis (toLowerCase q) = Some e \<and> IEmoji.category e \<noteq> ''Skin Tones''
               \<longrightarrow> getImageData emojis q = Some (findImage e None))
         \<and> ((\<forall>e \<in> set emojis. '':)'' \<notin> set (IEmoji.short_names e))
               \<longrightarrow> getImageData emojis '':)'' = None)"
proof (intro conjI)
  show "(getImageData emojis q \<noteq> None) =
          (\<exists>e. emojiValMap emojis (toLowerCase q) = Some e \<and> IEmoji.category e \<noteq> ''Skin Tones'')"
    using assms by (auto simp: getImageData_plain split: option.splits)
  show "\<forall>e. emojiValMap emojis (toLowerCase q) = Some e \<and> IEmoji.category e \<noteq> ''Skin Tones''
          \<longrightarrow> getImageData emojis q = Some (findImage e None)"
    using assms by (auto simp: getImageData_plain)
  have low: "toLowerCase '':)'' = '':)''" by (simp add: toLowerCase_def)
  have "\<not> sublist ''::skin-tone-'' (toLowerCase '':)'')"
    by (simp add: low sublist_Cons_right)
  then have "getImageData emojis '':)'' =
     (case emojiValMap emojis '':)'' of
        Some e \<Rightarrow> if IEmoji.category e \<noteq> ''Skin Tones'' then Some (findImage e None) else None
      | None \<Rightarrow> None)"
    using getImageData_plain [of "'':)''" emojis] by (simp add: low)
  then show "(\<forall>e \<in> set emojis. '':)'' \<notin> set (IEmoji.short_names e))
               \<longrightarrow> getImageData emojis '':)'' = None"
    using emojiValMap_None [of emojis "'':)''"] by (auto split: option.splits)
qed

lemma lower_samples:
  "toLowerCase ''SMILE'' = ''smile''"
  "toLowerCase ''skin-tone-4'' = ''skin-tone-4''"
  "toLowerCase ''SMILE::SKIN-TONE-4'' = ''smile::skin-tone-4''"
  "toLowerCase ''wave::skin-tone-?'' = ''wave::skin-tone-?''"
  "toLowerCase ''smile::skin-tone-x'' = ''smile::skin-tone-x''"
  "toLowerCase ''spock-hand::skin-tone-4'' = ''spock-hand::skin-tone-4''"
  "toLowerCase ''skin-tone-2-hand::skin-tone-4'' = ''skin-tone-2-hand::skin-tone-4''"
  by (simp_all add: toLowerCase_def char_of_eq)

theorem getImageData_plain_found_witness:
  "\<not> sublist ''::skin-tone-'' (toLowerCase ''SMILE'')
   \<and> emojiValMap sample_emojis (toLowerCase ''SMILE'') = Some smile
   \<and> IEmoji.category smile \<noteq> ''Skin Tones''
   \<and> getImageData sample_emojis ''SMILE'' = Some (findImage smile None)
   \<and> getImageData sample_emojis '':)'' = None
   \<and> getImageData sample_emojis ''skin-tone-4'' = None"
proof -
  have h: "\<not> sublist ''::skin-tone-'' (toLowerCase ''SMILE'')"
    by (simp add: lower_samples sublist_Cons_right)
  have m: "emojiValMap sample_emojis (toLowerCase ''SMILE'') = Some smile"
    by (simp add: lower_samples emojiValMap_sample)
  have c: "IEmoji.category smile \<noteq> ''Skin Tones''"
    by (simp add: sample_category)
  have n: "\<forall>e \<in> set sample_emojis. '':)'' \<notin> set (IEmoji.short_names e)"
    by (simp add: sample_emojis_def sample_short_names)
  have h4: "\<not> sublist ''::skin-tone-'' (toLowerCase ''skin-tone-4'')"
    by (simp add: lower_samples sublist_Cons_right)
  have m4: "emojiValMap sample_emojis (toLowerCase ''skin-tone-4'') = Some skin_tone_4"
    by (simp add: lower_samples emojiValMap_sample)
  have "getImageData sample_emojis ''skin-tone-4'' = None"
    using getImageData_plain_found [OF h4, of sample_emojis] m4 by (simp add: sample_category)
  with getImageData_plain_found [OF h, of sample_emojis] h m c n show ?thesis
    by simp
qed

text \<open>
  C6 as stated speaks of the query itself not containing \<^verbatim>\<open>::skin-tone-\<close>. The query
  \<^verbatim>\<open>SMILE::SKIN-TONE-4\<close> does not contain it and its lower-cased form is no name of the index,
  yet a descriptor is returned: lower-cased, it is a compound query.
\<close>

theorem getImageData_plain_literal_counterexample:
  "\<not> sublist ''::skin-tone-'' ''SMILE::SKIN-TONE-4''
   \<and> getImageData sample_emojis ''SMILE::SKIN-TONE-4'' =
       Some \<lparr> EmojiImage.x = 160 / 3, y = 250 / 3, sheetSizeX = 6100, sheetSizeY = 6100,
              image = ''1f604.png'' \<rparr>
   \<and> emojiValMap sample_emojis (toLowerCase ''SMILE::SKIN-TONE-4'') = None"
  by (simp add: sublist_Cons_right getImageData_def lower_samples
       emojiValMap_sample findImage_sample isDigit_def skin_tone_key_def)

text \<open>
  C5, as amended. For a query that contains \<^verbatim>\<open>::skin-tone-\<close>, in whose lower-cased form the
  pattern \<^verbatim>\<open>skin-tone-(\d+)\<close> matches nowhere, and whose base name (the lower-cased query
  without its last 13 characters) is a name of the index: the modifier is looked up under
  the name \<^verbatim>\<open>skin-tone-null\<close>, and the result is the descriptor of the base record with
  that modifier. When \<^verbatim>\<open>skin-tone-null\<close> is no name of the index, this is the base record's
  own descriptor, with the base record's scaled coordinates and image, not \<open>(0, 0)\<close>. A
  value is returned in every case.
\<close>

theorem getImageData_malformed_tone:
  assumes "sublist ''::skin-tone-'' q"
      and "match_skin_tone (toLowerCase q) = None"
      and "emojiValMap emojis (take (length q - 13) (toLowerCase q)) = Some base"
  shows "getImageData emojis q = Some (findImage base (emojiValMap emojis ''skin-tone-null''))
         \<and> (emojiValMap emojis ''skin-tone-null'' = None \<longrightarrow>
              getImageData emojis q =
                Some \<lparr> EmojiImage.x = IEmoji.sheet_x base * 100 / (sheetColumns - 1),
                       y = IEmoji.sheet_y base * 100 / (sheetRows - 1),
                       sheetSizeX = 100 * sheetColumns,
                       sheetSizeY = 100 * sheetRows,
                       image = IEmoji.image base \<rparr>)"
proof -
  have "getImageData emojis q = Some (findImage base (emojiValMap emojis ''skin-tone-null''))"
    using assms by (simp add: getImageData_compound marker_lower skin_tone_key_def)
  then show ?thesis
    by (simp add: findImage_absent)
qed

theorem getImageData_malformed_tone_witness:
  "sublist ''::skin-tone-'' ''wave::skin-tone-?''
   \<and> match_skin_tone (toLowerCase ''wave::skin-tone-?'') = None
   \<and> emojiValMap sample_emojis (take (length ''wave::skin-tone-?'' - 13) (toLowerCase ''wave::skin-tone-?''))
        = Some wave
   \<and> emojiValMap sample_emojis ''skin-tone-null'' = None
   \<and> getImageData sample_emojis ''wave::skin-tone-?'' = Some (findImage wave None)
   \<and> findImage wave None =
       \<lparr> EmojiImage.x = 65 / 3, y = 35 / 3, sheetSizeX = 6100, sheetSizeY = 6100,
         image = ''1f44b.png'' \<rparr>"
  using getImageData_malformed_tone [of "''wave::skin-tone-?''" sample_emojis wave]
  by (simp add: sublist_Cons_right lower_samples isDigit_def emojiValMap_sample findImage_sample)

text \<open>
  C5 as stated promises the coordinates \<open>(0, 0)\<close>. For \<^verbatim>\<open>smile::skin-tone-x\<close> the tone does
  not match the pattern, the base name \<^verbatim>\<open>smile\<close> resolves, and the coordinates are those of
  \<^verbatim>\<open>smile\<close>.
\<close>

theorem getImageData_malformed_tone_counterexample:
  "sublist ''::skin-tone-'' ''smile::skin-tone-x''
   \<and> match_skin_tone (toLowerCase ''smile::skin-tone-x'') = None
   \<and> emojiValMap sample_emojis
        (take (length ''smile::skin-tone-x'' - 13) (toLowerCase ''smile::skin-tone-x'')) = Some smile
   \<and> getImageData sample_emojis ''smile::skin-tone-x'' =
       Some \<lparr> EmojiImage.x = 160 / 3, y = 250 / 3, sheetSizeX = 6100, sheetSizeY = 6100,
              image = ''1f604.png'' \<rparr>"
  by (simp add: sublist_Cons_right getImageData_def lower_samples
       emojiValMap_sample findImage_sample isDigit_def skin_tone_key_def)


subsection \<open>The pattern and the numeric suffix\<close>








section \<open>Properties of searchEmoji\<close>

text \<open>
  Sorting stably by \<open>g\<close> and then stably by \<open>f\<close> is sorting stably by the pair
  \<open>(f, g)\<close> in the lexicographic order.
\<close>

lemma sorted_lex:
  fixes f :: "'a \<Rightarrow> 'b::linorder" and g :: "'a \<Rightarrow> 'c::linorder"
  assumes "sorted (map f ys)"
      and "\<And>c. sorted (map g (filter (\<lambda>x. f x = c) ys))"
  shows "sorted (map (\<lambda>x. (f x, g x)) ys)"
  using assms
proof (induction ys)
  case Nil
  then show ?case by simp
next
  case (Cons y ys)
  have tail: "sorted (map (\<lambda>x. (f x, g x)) ys)"
  proof (rule Cons.IH)
    show "sorted (map f ys)" using Cons.prems(1) by simp
    fix c
    show "sorted (map g (filter (\<lambda>x. f x = c) ys))"
      using Cons.prems(2) [of c] by (cases "f y = c") simp_all
  qed
  have head: "(f y, g y) \<le> (f z, g z)" if z: "z \<in> set ys" for z
  proof (cases "f z = f y")
    case True
    from Cons.prems(2) [of "f y"] True z have "g y \<le> g z"
      by auto
    with True show ?thesis by (simp add: less_eq_prod_def)
  next
    case False
    from Cons.prems(1) z have "f y \<le> f z" by auto
    with False show ?thesis by (auto simp: less_eq_prod_def)
  qed
  from tail head show ?case by auto
qed

lemma two_pass_sort:
  fixes f :: "'a \<Rightarrow> 'b::linorder" and g :: "'a \<Rightarrow> 'c::linorder"
  shows "sort_key f (sort_key g xs) = sort_key (\<lambda>x. (f x, g x)) xs"
proof (rule sym, rule properties_for_sort_key)
  let ?ys = "sort_key f (sort_key g xs)"
  show "mset ?ys = mset xs" by simp
  show "sorted (map (\<lambda>x. (f x, g x)) ?ys)"
  proof (rule sorted_lex)
    show "sorted (map f ?ys)" by (rule sorted_sort_key)
    fix c
    have "filter (\<lambda>x. f x = c) ?ys = filter (\<lambda>x. f x = c) (sort_key g xs)"
      by (rule sort_key_stable)
    moreover have "sorted (map g (filter (\<lambda>x. f x = c) (sort_key g xs)))"
      by (simp add: sorted_filter sorted_sort_key)
    ultimately show "sorted (map g (filter (\<lambda>x. f x = c) ?ys))" by simp
  qed
  fix k
  have "filter (\<lambda>x. (f k, g k) = (f x, g x)) ?ys
          = filter (\<lambda>x. g x = g k) (filter (\<lambda>x. f x = f k) ?ys)"
    by (auto intro: filter_cong)
  also have "\<dots> = filter (\<lambda>x. g x = g k) (filter (\<lambda>x. f x = f k) (sort_key g xs))"
    by (simp only: sort_key_stable)
  also have "\<dots> = filter (\<lambda>x. f x = f k) (filter (\<lambda>x. g x = g k) (sort_key g xs))"
    by (auto intro: filter_cong)
  also have "\<dots> = filter (\<lambda>x. f x = f k) (filter (\<lambda>x. g x = g k) xs)"
    by (simp only: sort_key_stable)
  also have "\<dots> = filter (\<lambda>x. (f k, g k) = (f x, g x)) xs"
    by (auto intro: filter_cong)
  finally show "filter (\<lambda>x. (f k, g k) = (f x, g x)) ?ys
                  = filter (\<lambda>x. (f k, g k) = (f x, g x)) xs" .
qed

lemma insort_key_map:
  "insort_key k (h e) (map h es) = map h (insort_key (\<lambda>a. k (h a)) e es)"
  by (induction es) auto

lemma sort_key_map:
  "sort_key k (map h xs) = map h (sort_key (\<lambda>a. k (h a)) xs)"
  by (induction xs) (simp_all add: insort_key_map)

lemma search_matches_filter:
  "search_matches emojis s =
     map (\<lambda>e. (indexOf (IEmoji.short_name e) s, e)) (filter (search_match s) emojis)"
  by (induction emojis)
     (auto simp: search_matches_def search_match_def Let_def indexOf_sublist hasSkinTone_sublist)

lemma search_sorted:
  "map snd (sort_key fst (sort_key (\<lambda>a. length (IEmoji.short_name (snd a)))
      (search_matches emojis s))) = search_spec emojis s"
proof -
  have key: "(\<lambda>e. (indexOf (IEmoji.short_name e) s, length (IEmoji.short_name e))) = search_key s"
    by (simp add: fun_eq_iff search_key_def)
  show ?thesis
    by (simp add: two_pass_sort search_matches_filter sort_key_map search_spec_def key comp_def)
qed

lemma slice_nonneg: "0 \<le> limit \<Longrightarrow> slice 0 limit xs = take (nat limit) xs"
  by (auto simp: slice_def Let_def min_def)

lemma slice_neg: "limit < 0 \<Longrightarrow> slice 0 limit xs = take (length xs - nat (- limit)) xs"
proof -
  assume "limit < 0"
  then have "nat (max (int (length xs) + limit) 0) = length xs - nat (- limit)"
    by (auto simp: max_def)
  with \<open>limit < 0\<close> show ?thesis by (simp add: slice_def Let_def)
qed

lemma search_spec_sorted: "sorted_wrt (search_before s) (search_spec emojis s)"
proof -
  have "sorted (map (search_key s) (search_spec emojis s))"
    unfolding search_spec_def by (rule sorted_sort_key)
  then have "sorted_wrt (\<lambda>a b. search_key s a \<le> search_key s b) (search_spec emojis s)"
    by (simp add: sorted_map)
  then show ?thesis
    by (rule sorted_wrt_mono_rel [rotated])
       (auto simp: search_before_def search_key_def less_eq_prod_def)
qed

text \<open>
  C1. For a limit \<open>\<ge> 0\<close>, \<open>searchEmoji\<close> returns the first \<open>limit\<close> entries of
  \<open>search_spec\<close>: the records of the dataset whose short name contains the query (case
  matters) and does not contain \<^verbatim>\<open>skin-tone-\<close>, each as often as in the dataset, ordered by
  the position of the first occurrence of the query in the short name and, for equal
  positions, by the length of the short name. \<open>indexOf\<close> is that position: the query
  starts there and nowhere before. The result has at most \<open>limit\<close> entries; being a
  function of the dataset, the query and the limit, it is deterministic.
\<close>

theorem searchEmoji_spec:
  assumes "0 \<le> limit"
  shows "searchEmoji emojis s limit = take (nat limit) (search_spec emojis s)
         \<and> mset (search_spec emojis s) = mset (filter (search_match s) emojis)
         \<and> sorted_wrt (search_before s) (search_spec emojis s)
         \<and> (\<forall>e \<in> set (search_spec emojis s).
               0 \<le> indexOf (IEmoji.short_name e) s
               \<and> prefix s (drop (nat (indexOf (IEmoji.short_name e) s)) (IEmoji.short_name e))
               \<and> (\<forall>j < nat (indexOf (IEmoji.short_name e) s).
                     \<not> prefix s (drop j (IEmoji.short_name e))))
         \<and> length (searchEmoji emojis s limit) \<le> nat limit"
proof (intro conjI ballI)
  show eq: "searchEmoji emojis s limit = take (nat limit) (search_spec emojis s)"
    using assms by (simp add: searchEmoji_def search_sorted slice_nonneg)
  show "mset (search_spec emojis s) = mset (filter (search_match s) emojis)"
    by (simp add: search_spec_def)
  show "sorted_wrt (search_before s) (search_spec emojis s)"
    by (rule search_spec_sorted)
  show "length (searchEmoji emojis s limit) \<le> nat limit"
    by (simp add: eq)
next
  fix e assume "e \<in> set (search_spec emojis s)"
  then have "sublist s (IEmoji.short_name e)"
    by (simp add: search_spec_def search_match_def)
  then have "- 1 < indexOf (IEmoji.short_name e) s"
    by (simp add: indexOf_sublist)
  then show pos: "0 \<le> indexOf (IEmoji.short_name e) s" by simp
  from indexOf_first [OF pos]
  show "prefix s (drop (nat (indexOf (IEmoji.short_name e) s)) (IEmoji.short_name e))"
    and "\<forall>j < nat (indexOf (IEmoji.short_name e) s). \<not> prefix s (drop j (IEmoji.short_name e))"
    by simp_all
qed

text \<open>
  C10. For a limit \<open>< 0\<close>, \<open>searchEmoji\<close> returns the sorted matches without their last
  \<open>|limit|\<close> entries (none when there are not more than \<open>|limit|\<close> matches).
\<close>

theorem searchEmoji_negative_limit:
  assumes "limit < 0"
  shows "searchEmoji emojis s limit =
           take (length (search_spec emojis s) - nat (- limit)) (search_spec emojis s)
         \<and> length (searchEmoji emojis s limit) = length (search_spec emojis s) - nat (- limit)
         \<and> searchEmoji emojis s limit
             @ drop (length (search_spec emojis s) - nat (- limit)) (search_spec emojis s)
           = search_spec emojis s"
  using assms by (simp add: searchEmoji_def search_sorted slice_neg)


lemma search_matches_sample:
  "search_matches sample_emojis ''s'' =
     [(19, people_holding_hands), (0, spock_hand), (0, smile)]"
  by (simp add: search_matches_def sample_emojis_def sample_short_name hasSkinTone_def Let_def)

lemma searchEmoji_sample:
  "searchEmoji sample_emojis ''s'' limit =
     slice 0 limit [smile, spock_hand, people_holding_hands]"
  by (simp add: searchEmoji_def search_matches_sample sample_short_name)

lemma search_spec_sample:
  "search_spec sample_emojis ''s'' = [smile, spock_hand, people_holding_hands]"
  by (simp add: search_sorted [symmetric] search_matches_sample sample_short_name)

theorem searchEmoji_spec_witness:
  "(0::int) \<le> 2
   \<and> searchEmoji sample_emojis ''s'' 2 = [smile, spock_hand]
   \<and> take (nat 2) (search_spec sample_emojis ''s'') = [smile, spock_hand]
   \<and> searchEmoji sample_emojis ''s'' 10 = [smile, spock_hand, people_holding_hands]"
  using searchEmoji_spec [of 2 sample_emojis "''s''"]
  by (simp add: searchEmoji_sample search_spec_sample slice_def)

theorem searchEmoji_negative_limit_witness:
  "(- 1 :: int) < 0
   \<and> searchEmoji sample_emojis ''s'' (- 1) = [smile, spock_hand]
   \<and> searchEmoji sample_emojis ''s'' (- 5) = []
   \<and> length (search_spec sample_emojis ''s'') - nat (- (- 1)) = 2"
  using searchEmoji_negative_limit [of "- 1" sample_emojis "''s''"]
  by (simp add: searchEmoji_sample search_spec_sample slice_def)

section \<open>Properties of replaceEmojiToStr\<close>

















lemma replace_all_match:
  "match_at alts t = Some (m, p1) \<Longrightarrow> m \<noteq> [] \<Longrightarrow>
     replace_all emojis alts t =
       convertUniToStr emojis m p1 @ replace_all emojis alts (drop (length m) t)"
  by (simp add: replace_all.simps)




lemma initUnified_sample:
  "initUnified sample_emojis =
     [[0x1F9D1, 0x200D, 0x1F91D, 0x200D, 0x1F9D1], [0x1F596], [0x1F44B], [0x1F604],
      [0x1F3FB], [0x1F3FD], [0x1F3FF]]"
  by (simp add: initUnified_def sample_emojis_def sample_char utf16_length_def)


lemma emojiUnifiedValMap_sample:
  "emojiUnifiedValMap sample_emojis [0x1F44B] = Some wave"
  "emojiUnifiedValMap sample_emojis [0x1F3FB] = Some skin_tone_2"
  by (simp_all add: emojiUnifiedValMap_def sample_emojis_def sample_char)

lemma match_at_sample:
  "match_at (initUnified sample_emojis) [0x1F44B, 0xDFFB, 0x61] = Some ([0x1F44B, 0xDFFB], [0x1F44B])"
  "match_at (initUnified sample_emojis) [0x61] = None"
  "match_at (initUnified sample_emojis) [0x1F44B, 0x1F3FB] = Some ([0x1F44B], [0x1F44B])"
  "match_at (initUnified sample_emojis) [0x1F3FB] = Some ([0x1F3FB], [0x1F3FB])"
  by (simp_all add: initUnified_sample match_at_def in_modifier_class_def)



text \<open>
  The modifiers \<^verbatim>\<open>U+1F3FB\<close> to \<^verbatim>\<open>U+1F3FF\<close> are not in the class \<^verbatim>\<open>[\u{DFFB}-\u{DFFF}]\<close>;
  behind an emoji such a modifier is matched on its own, as the emoji it is in the dataset.
  This is the result the repository's tests expect.
\<close>

lemma replaceEmojiToStr_wave_tone:
  "replaceEmojiToStr sample_emojis [0x1F44B, 0x1F3FB] = codes '':wave::skin-tone-2:''"
proof -
  have 1: "replace_all sample_emojis (initUnified sample_emojis) [] = []"
    by (simp add: replace_all.simps initUnified_sample match_at_def)
  have 2: "replace_all sample_emojis (initUnified sample_emojis) [0x1F3FB]
             = codes '':skin-tone-2:''"
    using replace_all_match [OF match_at_sample(4), of sample_emojis] 1
    by (simp add: convertUniToStr_def emojiUnifiedValMap_sample sample_short_name codes_def)
  show ?thesis
    using replace_all_match [OF match_at_sample(3), of sample_emojis] 2
    by (simp add: replaceEmojiToStr_def convertUniToStr_def emojiUnifiedValMap_sample
          sample_short_name codes_def)
qed

end
